theory Spec2Isabelle
  imports Main "HOL-Library.Word"
begin

section \<open>JavaScript values handled by the SQL builder\<close>

text \<open>
  The builder of \<^verbatim>\<open>src/SQL.js\<close> receives untyped JavaScript values: bind parameters,
  condition mappings, nested operator objects, arrays and other builder instances. They are
  modelled by one datatype. A number that is an integer \<^verbatim>\<open>n\<close> with
  \<^verbatim>\<open>-2^53 <= n < 2^53\<close> is \<^verbatim>\<open>JNum\<close> of the 54-bit two's-complement word of
  \<^verbatim>\<open>n\<close> (\<^verbatim>\<open>sint\<close> reads it back); each of these is a number of the language, and
  its \<^verbatim>\<open>toString()\<close> is its decimal expansion. Every other number (a fraction, an integer
  of larger magnitude, NaN, an infinity) is \<^verbatim>\<open>JNumOther\<close> of the text that its
  \<^verbatim>\<open>toString()\<close> returns, such as \<^verbatim>\<open>1.5\<close>, \<^verbatim>\<open>1e+21\<close> or \<^verbatim>\<open>NaN\<close>: the code
  reads nothing else of such a number but its type and its truth value. An
  arbitrary-precision integer is any integer. A mapping is the list of its own enumerable
  properties in enumeration order,
  a \<^verbatim>\<open>Buffer\<close> is its bytes, and an instance of class \<^verbatim>\<open>SQL\<close> used as a value is its
  \<^verbatim>\<open>sql\<close> text with its \<^verbatim>\<open>params\<close> array. Strings are ASCII. Members that a
  value inherits from its prototype are not part of the model: reading a key that no own
  property carries gives \<^verbatim>\<open>undefined\<close>.
\<close>

datatype jsval =
    JUndefined
  | JNull
  | JBool bool
  | JNum "54 word"
  | JNumOther string
  | JBigInt int
  | JStr string
  | JBuffer "8 word list"
  | JArr "jsval list"
  | JObj "(string \<times> jsval) list"
  | JFunc
  | JSql string "jsval list"

text \<open>
  What the code throws: the engine's \<^verbatim>\<open>TypeError\<close> (a property read on
  \<^verbatim>\<open>undefined\<close> or \<^verbatim>\<open>null\<close>, a \<^verbatim>\<open>for ... of\<close> over a value that is not iterable),
  its \<^verbatim>\<open>RangeError\<close> (an invalid array length), and the \<^verbatim>\<open>Error\<close> that
  \<^verbatim>\<open>toString\<close> raises itself, with its message.
\<close>

datatype error = TypeError | RangeError | Error string

text \<open>The builder instance: the fields the methods read and write.\<close>

record builder =
  sql :: string
  params :: "jsval list"
  hasWhere :: bool
  values_field :: "(string \<times> jsval) list option"

definition new_builder :: builder where
  "new_builder = \<lparr>sql = [], params = [], hasWhere = False, values_field = None\<rparr>"

subsection \<open>Primitive operations of the language\<close>

definition digit_char :: "nat \<Rightarrow> char" where
  "digit_char d = ''0123456789abcdef'' ! (d mod 16)"

function show_nat :: "nat \<Rightarrow> string" where
  "show_nat n = (if n < 10 then [digit_char n] else show_nat (n div 10) @ [digit_char (n mod 10)])"
  by pat_completeness auto
termination
  by (relation "measure id") auto

declare show_nat.simps [simp del]

definition show_int :: "int \<Rightarrow> string" where
  "show_int i = (if i < 0 then CHR ''-'' # show_nat (nat (- i)) else show_nat (nat i))"

text \<open>\<^verbatim>\<open>buf.toString("hex")\<close>: two lower-case hexadecimal digits per byte.\<close>

definition hex_byte :: "8 word \<Rightarrow> string" where
  "hex_byte w = [digit_char (unat w div 16), digit_char (unat w mod 16)]"

definition hex_string :: "8 word list \<Rightarrow> string" where
  "hex_string bs = concat (map hex_byte bs)"

text \<open>\<^verbatim>\<open>typeof\<close>.\<close>

fun js_typeof :: "jsval \<Rightarrow> string" where
  "js_typeof JUndefined = ''undefined''"
| "js_typeof JNull = ''object''"
| "js_typeof (JBool b) = ''boolean''"
| "js_typeof (JNum n) = ''number''"
| "js_typeof (JNumOther t) = ''number''"
| "js_typeof (JBigInt n) = ''bigint''"
| "js_typeof (JStr s) = ''string''"
| "js_typeof (JBuffer bs) = ''object''"
| "js_typeof (JArr xs) = ''object''"
| "js_typeof (JObj fs) = ''object''"
| "js_typeof JFunc = ''function''"
| "js_typeof (JSql s ps) = ''object''"

text \<open>\<^verbatim>\<open>xs.join(sep)\<close> on an array of strings.\<close>

fun join :: "string \<Rightarrow> string list \<Rightarrow> string" where
  "join sep [] = []"
| "join sep [x] = x"
| "join sep (x # y # ys) = x @ sep @ join sep (y # ys)"


subsection \<open>Property reads, iteration, truthiness\<close>

text \<open>
  \<^verbatim>\<open>key[0]=='$' || key[0]=='.'\<close>: the test that skips a key. On the empty key
  \<^verbatim>\<open>key[0]\<close> is \<^verbatim>\<open>undefined\<close> and the test fails.
\<close>

fun reserved :: "string \<Rightarrow> bool" where
  "reserved [] = False"
| "reserved (c # cs) = (c = CHR ''$'' \<or> c = CHR ''.'')"

definition is_digit :: "char \<Rightarrow> bool" where
  "is_digit c = (c \<in> set ''0123456789'')"

definition index_of :: "string \<Rightarrow> nat \<Rightarrow> nat option" where
  "index_of k n = (case filter (\<lambda>i. show_nat i = k) [0..<n] of [] \<Rightarrow> None | i # _ \<Rightarrow> Some i)"

text \<open>
  \<^verbatim>\<open>v.k\<close> and \<^verbatim>\<open>v[k]\<close> on a value that is neither \<^verbatim>\<open>null\<close> nor
  \<^verbatim>\<open>undefined\<close> (on those the read throws, which every caller below writes out). An
  array, a string and a byte sequence have fewer than \<^verbatim>\<open>2^32\<close> elements, so their
  \<^verbatim>\<open>length\<close> is a number of the first kind.
\<close>

fun get :: "jsval \<Rightarrow> string \<Rightarrow> jsval" where
  "get (JObj fs) k = (case map_of fs k of None \<Rightarrow> JUndefined | Some x \<Rightarrow> x)"
| "get (JArr xs) k =
     (if k = ''length'' then JNum (of_nat (length xs))
      else if \<not> list_all is_digit k then JUndefined
      else (case index_of k (length xs) of None \<Rightarrow> JUndefined | Some i \<Rightarrow> xs ! i))"
| "get (JStr s) k =
     (if k = ''length'' then JNum (of_nat (length s))
      else if \<not> list_all is_digit k then JUndefined
      else (case index_of k (length s) of None \<Rightarrow> JUndefined | Some i \<Rightarrow> JStr [s ! i]))"
| "get (JBuffer bs) k =
     (if k = ''length'' then JNum (of_nat (length bs))
      else if \<not> list_all is_digit k then JUndefined
      else (case index_of k (length bs) of None \<Rightarrow> JUndefined | Some i \<Rightarrow> JNum (ucast (bs ! i))))"
| "get (JSql s ps) k =
     (if k = ''sql'' then JStr s else if k = ''params'' then JArr ps else JUndefined)"
| "get v k = JUndefined"

text \<open>\<^verbatim>\<open>for (let e of x)\<close>: the elements, or the TypeError of a value that is not iterable.\<close>

fun iterate :: "jsval \<Rightarrow> error + jsval list" where
  "iterate (JArr xs) = Inr xs"
| "iterate (JStr s) = Inr (map (\<lambda>c. JStr [c]) s)"
| "iterate (JBuffer bs) = Inr (map (\<lambda>b. JNum (ucast b)) bs)"
| "iterate v = Inl TypeError"

text \<open>
  The own enumerable properties, as \<^verbatim>\<open>for (key in x)\<close> and \<^verbatim>\<open>Object.entries(x)\<close>
  enumerate them.
\<close>

fun own_entries :: "jsval \<Rightarrow> (string \<times> jsval) list" where
  "own_entries (JObj fs) = fs"
| "own_entries (JArr xs) = map (\<lambda>i. (show_nat i, xs ! i)) [0..<length xs]"
| "own_entries (JStr s) = map (\<lambda>i. (show_nat i, JStr [s ! i])) [0..<length s]"
| "own_entries (JBuffer bs) = map (\<lambda>i. (show_nat i, JNum (ucast (bs ! i)))) [0..<length bs]"
| "own_entries (JSql s ps) = [(''sql'', JStr s), (''params'', JArr ps)]"
| "own_entries v = []"

definition hasOwnProperty :: "jsval \<Rightarrow> string \<Rightarrow> bool" where
  "hasOwnProperty obj key = (key \<in> set (map fst (own_entries obj)))"

text \<open>\<^verbatim>\<open>Object.entries(x)\<close> throws on \<^verbatim>\<open>null\<close> and \<^verbatim>\<open>undefined\<close>.\<close>

definition nullish :: "jsval \<Rightarrow> bool" where
  "nullish v = (v = JUndefined \<or> v = JNull)"

definition entries :: "jsval \<Rightarrow> error + (string \<times> jsval) list" where
  "entries v = (if nullish v then Inl TypeError else Inr (own_entries v))"

text \<open>
  The truth value of a value in a condition (\<^verbatim>\<open>a && b\<close>). Of the numbers, both zeros
  (they are \<^verbatim>\<open>JNum 0\<close>) and NaN are false.
\<close>

fun truthy :: "jsval \<Rightarrow> bool" where
  "truthy JUndefined = False"
| "truthy JNull = False"
| "truthy (JBool b) = b"
| "truthy (JNum n) = (n \<noteq> 0)"
| "truthy (JNumOther t) = (t \<noteq> ''NaN'')"
| "truthy (JBigInt n) = (n \<noteq> 0)"
| "truthy (JStr s) = (s \<noteq> [])"
| "truthy v = True"

text \<open>\<^verbatim>\<open>arguments[i]\<close>: \<^verbatim>\<open>undefined\<close> past the arguments that were passed.\<close>

fun arg :: "jsval list \<Rightarrow> nat \<Rightarrow> jsval" where
  "arg args i = (if i < length args then args ! i else JUndefined)"

section \<open>toString\<close>

text \<open>
  \<^verbatim>\<open>quoteString(str)\<close>: every single quote of the string is doubled and the result put
  between single quotes.
\<close>

definition quoteString :: "string \<Rightarrow> string" where
  "quoteString str =
     [CHR 0x27] @ concat (map (\<lambda>c. if c = CHR 0x27 then [CHR 0x27, CHR 0x27] else [c]) str) @ [CHR 0x27]"

definition invalid_parameter_message :: "string \<Rightarrow> string" where
  "invalid_parameter_message ty =
     ''Invalid parameter type: '' @ [CHR 0x27] @ ty @ [CHR 0x27] @
     '' must be number, string, bigint, buffer, or null''"

text \<open>
  The body of the callback of \<^verbatim>\<open>toString\<close> once a parameter \<^verbatim>\<open>pv\<close> has been read:
  \<^verbatim>\<open>pv == null\<close> holds of \<^verbatim>\<open>null\<close> and \<^verbatim>\<open>undefined\<close>; then the switch on
  \<^verbatim>\<open>typeof(pv)\<close>; whatever leaves the switch reaches the \<^verbatim>\<open>throw\<close>. A number and
  an arbitrary-precision integer are rendered by their own \<^verbatim>\<open>toString()\<close>.
\<close>

fun render_param :: "jsval \<Rightarrow> error + string" where
  "render_param JUndefined = Inr ''NULL''"
| "render_param JNull = Inr ''NULL''"
| "render_param (JStr s) = Inr (quoteString s)"
| "render_param (JBuffer bs) = Inr (''X'' @ [CHR 0x27] @ hex_string bs @ [CHR 0x27])"
| "render_param (JBigInt n) = Inr (show_int n)"
| "render_param (JNum n) = Inr (show_int (sint n))"
| "render_param (JNumOther t) = Inr t"
| "render_param pv = Inl (Error (invalid_parameter_message (js_typeof pv)))"

text \<open>
  \<^verbatim>\<open>this.sql.replace(/\?/g, callback)\<close>: the text is scanned from the left, every
  \<^verbatim>\<open>?\<close> is handed to the callback, which reads \<^verbatim>\<open>this.params[paramIndex++]\<close> while
  \<^verbatim>\<open>paramIndex < this.params.length\<close> and returns \<^verbatim>\<open>'?'\<close> afterwards. An exception of
  the callback ends the whole call.
\<close>

fun replace_placeholders :: "string \<Rightarrow> jsval list \<Rightarrow> nat \<Rightarrow> error + string" where
  "replace_placeholders [] ps paramIndex = Inr []"
| "replace_placeholders (c # cs) ps paramIndex =
     (if c = CHR ''?'' then
        (if paramIndex < length ps then
           (case render_param (ps ! paramIndex) of
              Inl e \<Rightarrow> Inl e
            | Inr r \<Rightarrow>
                (case replace_placeholders cs ps (Suc paramIndex) of
                   Inl e \<Rightarrow> Inl e
                 | Inr rest \<Rightarrow> Inr (r @ rest)))
         else
           (case replace_placeholders cs ps paramIndex of
              Inl e \<Rightarrow> Inl e
            | Inr rest \<Rightarrow> Inr (CHR ''?'' # rest)))
      else
        (case replace_placeholders cs ps paramIndex of
           Inl e \<Rightarrow> Inl e
         | Inr rest \<Rightarrow> Inr (c # rest)))"

definition toString :: "builder \<Rightarrow> error + string" where
  "toString b = replace_placeholders (sql b) (params b) 0"

subsection \<open>The rendering as the specification words it\<close>

text \<open>
  The text is cut at its placeholders into pieces, and the pieces are put together again
  with the literals of the parameters between them, a \<^verbatim>\<open>?\<close> where the literals have run
  out. The supported parameter types are those the specification lists.
\<close>

fun pieces :: "string \<Rightarrow> string list" where
  "pieces [] = [[]]"
| "pieces (c # cs) =
     (if c = CHR ''?'' then [] # pieces cs
      else (case pieces cs of [] \<Rightarrow> [[c]] | p # ps \<Rightarrow> (c # p) # ps))"

fun fill_placeholders :: "string list \<Rightarrow> string list \<Rightarrow> string" where
  "fill_placeholders [] lits = []"
| "fill_placeholders [s] lits = s"
| "fill_placeholders (s # t # ss) [] = s @ ''?'' @ fill_placeholders (t # ss) []"
| "fill_placeholders (s # t # ss) (l # lits) = s @ l @ fill_placeholders (t # ss) lits"

definition placeholders :: "string \<Rightarrow> nat" where
  "placeholders text = length (filter (\<lambda>c. c = CHR ''?'') text)"

fun supported :: "jsval \<Rightarrow> bool" where
  "supported JUndefined = True"
| "supported JNull = True"
| "supported (JStr s) = True"
| "supported (JNum n) = True"
| "supported (JNumOther t) = True"
| "supported (JBigInt n) = True"
| "supported (JBuffer bs) = True"
| "supported v = False"

text \<open>The positions at which a word occurs in a text.\<close>

definition occurrences :: "string \<Rightarrow> string \<Rightarrow> nat list" where
  "occurrences w text = filter (\<lambda>i. take (length w) (drop i text) = w) [0..<Suc (length text)]"

definition contains :: "string \<Rightarrow> string \<Rightarrow> bool" where
  "contains text w = (occurrences w text \<noteq> [])"


section \<open>append\<close>

text \<open>
  The first parameter of \<^verbatim>\<open>append\<close> is documented as \<^verbatim>\<open>String|SQL\<close> and may be
  missing: a fragment is absent (\<^verbatim>\<open>undefined\<close> or \<^verbatim>\<open>null\<close>), a text, or another
  instance with its text and parameters. The arguments after the first are any values.
\<close>

datatype fragment = FAbsent | FText string | FSql string "jsval list"

definition instance_of :: "builder \<Rightarrow> fragment" where
  "instance_of b = FSql (sql b) (params b)"

text \<open>
  \<^verbatim>\<open>append(sql, params)\<close>. \<^verbatim>\<open>delete this.hasWhere\<close> comes first on every path. The text
  is joined with a space when \<^verbatim>\<open>this.sql.length>1\<close> and replaces \<^verbatim>\<open>this.sql\<close>
  otherwise. \<^verbatim>\<open>rest\<close> is \<^verbatim>\<open>arguments\<close> without its first element, so \<^verbatim>\<open>params\<close>
  is \<^verbatim>\<open>arg rest 0\<close>; when it is not \<^verbatim>\<open>undefined\<close> there are at least two arguments,
  and the test \<^verbatim>\<open>arguments.length>1\<close> of the last branch holds.
\<close>

function append_sql :: "builder \<Rightarrow> fragment \<Rightarrow> jsval list \<Rightarrow> builder" where
  "append_sql b FAbsent rest = b\<lparr>hasWhere := False\<rparr>"
| "append_sql b (FSql s ps) rest = append_sql (b\<lparr>hasWhere := False\<rparr>) (FText s) [JArr ps]"
| "append_sql b (FText s) rest =
     (let b1 = b\<lparr>hasWhere := False\<rparr>;
          b2 = (if length (sql b1) > 1 then b1\<lparr>sql := sql b1 @ '' '' @ s\<rparr> else b1\<lparr>sql := s\<rparr>)
      in if arg rest 0 \<noteq> JUndefined then
           (case arg rest 0 of
              JArr xs \<Rightarrow> b2\<lparr>params := params b2 @ xs\<rparr>
            | _ \<Rightarrow> b2\<lparr>params := params b2 @ rest\<rparr>)
         else b2)"
  by pat_completeness auto
termination
  by (relation "measure (\<lambda>(b, frag, rest). case frag of FSql s ps \<Rightarrow> 1 | _ \<Rightarrow> 0)") auto

text \<open>The constructor: an empty instance, then \<^verbatim>\<open>this.append.apply(this, arguments)\<close>.\<close>

definition new_SQL :: "fragment \<Rightarrow> jsval list \<Rightarrow> builder" where
  "new_SQL frag rest = append_sql new_builder frag rest"

definition parens :: "builder \<Rightarrow> fragment \<Rightarrow> jsval list \<Rightarrow> builder" where
  "parens b frag rest = append_sql (append_sql (append_sql b (FText ''('') []) frag rest) (FText '')'') []"

section \<open>buildCondition\<close>

definition backtick :: "string \<Rightarrow> string" where
  "backtick key = ''`'' @ key @ ''`''"

text \<open>
  \<^verbatim>\<open>Array(x.length).fill("?").join(',')\<close>: reading \<^verbatim>\<open>length\<close> throws on
  \<^verbatim>\<open>undefined\<close> and \<^verbatim>\<open>null\<close>; \<^verbatim>\<open>Array(n)\<close> throws a RangeError on a number that is
  no array length (an integer from 0 to \<^verbatim>\<open>2^32 - 1\<close>) and makes the one-element array
  \<^verbatim>\<open>[n]\<close> of anything that is not a number.
\<close>

fun question_marks :: "jsval \<Rightarrow> error + string" where
  "question_marks JUndefined = Inl TypeError"
| "question_marks JNull = Inl TypeError"
| "question_marks x =
     (case get x ''length'' of
        JNum n \<Rightarrow> if sint n < 0 \<or> 4294967296 \<le> sint n then Inl RangeError
                  else Inr (join '','' (replicate (nat (sint n)) ''?''))
      | JNumOther t \<Rightarrow> Inl RangeError
      | _ \<Rightarrow> Inr ''?'')"

text \<open>
  \<^verbatim>\<open>build_expression\<close> pushes onto the arrays \<^verbatim>\<open>sql\<close> and \<^verbatim>\<open>params\<close> of the
  enclosing call. The model returns what one call pushes, the strings and the parameters, and
  the caller appends them; \<^verbatim>\<open>collect\<close> runs calls one after the other and stops at the
  first exception. The branches for \<^verbatim>\<open>$or\<close> and \<^verbatim>\<open>$and\<close> put \<^verbatim>\<open>sql\<close> aside, collect
  what the sub-conditions push and push the joined text; \<^verbatim>\<open>params\<close> is never put aside.
  In the branch for \<^verbatim>\<open>$not\<close> the array is concatenated to a string, which joins it with
  commas.
\<close>

fun collect :: "(error + string list \<times> jsval list) list \<Rightarrow> error + string list \<times> jsval list" where
  "collect [] = Inr ([], [])"
| "collect (Inl e # rs) = Inl e"
| "collect (Inr (ss, ps) # rs) =
     (case collect rs of Inl e \<Rightarrow> Inl e | Inr (ss', ps') \<Rightarrow> Inr (ss @ ss', ps @ ps'))"

text \<open>
  The recursion of \<^verbatim>\<open>build_expression\<close> ends: a sub-condition is an element of the array
  under \<^verbatim>\<open>$or\<close> or \<^verbatim>\<open>$and\<close>, or the value under \<^verbatim>\<open>$not\<close>, of the object it is read
  from, and so is smaller than that object.
\<close>

lemma map_of_size: "map_of fs k = Some x \<Longrightarrow> size x < size (JObj fs)"
  by (induction fs) (auto split: if_splits)

lemma get_size_or: "get v ''$or'' \<noteq> JUndefined \<Longrightarrow> size (get v ''$or'') < size v"
  by (cases v) (auto simp: is_digit_def dest: map_of_size split: option.splits)

lemma get_size_and: "get v ''$and'' \<noteq> JUndefined \<Longrightarrow> size (get v ''$and'') < size v"
  by (cases v) (auto simp: is_digit_def dest: map_of_size split: option.splits)

lemma get_size_not: "get v ''$not'' \<noteq> JUndefined \<Longrightarrow> size (get v ''$not'') < size v"
  by (cases v) (auto simp: is_digit_def dest: map_of_size split: option.splits)

lemma elem_size: "x \<in> set xs \<Longrightarrow> size (x::jsval) \<le> size_list size xs"
  by (induction xs) auto

lemma iterate_size: "iterate y = Inr subs \<Longrightarrow> x \<in> set subs \<Longrightarrow> size x \<le> size y"
  by (cases y) (auto dest: elem_size)

function build_expression :: "string \<Rightarrow> jsval \<Rightarrow> error + string list \<times> jsval list" where
  "build_expression key v =
     (if v = JNull then Inr ([backtick key @ '' IS NULL''], [])
      else if v = JUndefined then Inl TypeError
      else if get v ''$ne'' \<noteq> JUndefined then Inr ([backtick key @ '' <> ?''], [get v ''$ne''])
      else if get v ''$lt'' \<noteq> JUndefined then Inr ([backtick key @ '' < ?''], [get v ''$lt''])
      else if get v ''$gt'' \<noteq> JUndefined then Inr ([backtick key @ '' > ?''], [get v ''$gt''])
      else if get v ''$lte'' \<noteq> JUndefined then Inr ([backtick key @ '' <= ?''], [get v ''$lte''])
      else if get v ''$gte'' \<noteq> JUndefined then Inr ([backtick key @ '' >= ?''], [get v ''$gte''])
      else if get v ''$le'' \<noteq> JUndefined then Inr ([backtick key @ '' <= ?''], [get v ''$le''])
      else if get v ''$ge'' \<noteq> JUndefined then Inr ([backtick key @ '' >= ?''], [get v ''$ge''])
      else if get v ''$eq'' \<noteq> JUndefined then Inr ([backtick key @ '' = ?''], [get v ''$ge''])
      else if get v ''$like'' \<noteq> JUndefined then Inr ([backtick key @ '' LIKE ?''], [get v ''$like''])
      else if get v ''$glob'' \<noteq> JUndefined then Inr ([backtick key @ '' GLOB ?''], [get v ''$glob''])
      else if get v ''$is'' = JNull then Inr ([backtick key @ '' IS NULL''], [])
      else if get v ''$isnot'' = JNull then Inr ([backtick key @ '' IS NOT NULL''], [])
      else if get v ''$in'' \<noteq> JUndefined then
        (case get v ''$in'' of
           JSql s ps \<Rightarrow> Inr ([backtick key @ '' IN ('' @ s @ '')''], ps)
         | x \<Rightarrow>
             (case question_marks x of
                Inl e \<Rightarrow> Inl e
              | Inr qs \<Rightarrow>
                  (case iterate x of
                     Inl e \<Rightarrow> Inl e
                   | Inr es \<Rightarrow> Inr ([backtick key @ '' IN ('' @ qs @ '')''], es))))
      else if get v ''$nin'' \<noteq> JUndefined then
        (case question_marks (get v ''$in'') of
           Inl e \<Rightarrow> Inl e
         | Inr qs \<Rightarrow>
             (case iterate (get v ''$in'') of
                Inl e \<Rightarrow> Inl e
              | Inr es \<Rightarrow> Inr ([backtick key @ '' NOT IN ('' @ qs @ '')''], es)))
      else if get v ''$or'' \<noteq> JUndefined then
        (case iterate (get v ''$or'') of
           Inl e \<Rightarrow> Inl e
         | Inr subs \<Rightarrow>
             (case collect (map (build_expression key) subs) of
                Inl e \<Rightarrow> Inl e
              | Inr (ss, ps) \<Rightarrow> Inr ([''('' @ join '' OR '' ss @ '')''], ps)))
      else if get v ''$and'' \<noteq> JUndefined then
        (case iterate (get v ''$and'') of
           Inl e \<Rightarrow> Inl e
         | Inr subs \<Rightarrow>
             (case collect (map (build_expression key) subs) of
                Inl e \<Rightarrow> Inl e
              | Inr (ss, ps) \<Rightarrow> Inr ([''('' @ join '' AND '' ss @ '')''], ps)))
      else if get v ''$not'' \<noteq> JUndefined then
        (if get v ''$not'' = JNull then Inl TypeError
         else if get (get v ''$not'') ''$is'' = JNull then Inr ([backtick key @ '' IS NOT NULL''], [])
         else
           (case build_expression key (get v ''$not'') of
              Inl e \<Rightarrow> Inl e
            | Inr (ss, ps) \<Rightarrow> Inr ([''NOT ('' @ join '','' ss @ '')''], ps)))
      else Inr ([key @ '' = ?''], [v]))"
  by pat_completeness auto

termination
proof (relation "measure (\<lambda>(key, v). size v)", goal_cases)
  case 1
  show ?case by simp
next
  case (2 key v subs x)
  then show ?case
    using get_size_or [of v] iterate_size [of "get v ''$or''" subs x] by simp
next
  case (3 key v subs x)
  then show ?case
    using get_size_and [of v] iterate_size [of "get v ''$and''" subs x] by simp
next
  case (4 key v)
  then show ?case
    using get_size_not [of v] by simp
qed

declare build_expression.simps [simp del]

text \<open>
  \<^verbatim>\<open>buildCondition(condition)\<close>, called with the argument list \<^verbatim>\<open>args\<close>: an instance is
  returned as it is, a string makes a new instance from all the arguments, and anything else
  is read through \<^verbatim>\<open>Object.entries\<close>. With no expression the string \<^verbatim>\<open>"TRUE"\<close> is
  returned, otherwise \<^verbatim>\<open>new SQL("(" + sql.join(" AND ") + ")", params)\<close>.
\<close>

definition buildCondition :: "jsval list \<Rightarrow> error + fragment" where
  "buildCondition args =
     (case arg args 0 of
        JSql s ps \<Rightarrow> Inr (FSql s ps)
      | JStr s \<Rightarrow> Inr (instance_of (append_sql new_builder (FText s) (tl args)))
      | condition \<Rightarrow>
          (case entries condition of
             Inl e \<Rightarrow> Inl e
           | Inr es \<Rightarrow>
               (case collect (map (\<lambda>(key, value). build_expression key value)
                                 (filter (\<lambda>(key, value). \<not> reserved key) es)) of
                  Inl e \<Rightarrow> Inl e
                | Inr (ss, ps) \<Rightarrow>
                    if length ss = 0 then Inr (FText ''TRUE'')
                    else Inr (instance_of (new_SQL (FText (''('' @ join '' AND '' ss @ '')'')) [JArr ps])))))"

section \<open>where, and, andWhere\<close>

text \<open>
  \<^verbatim>\<open>arguments[0] == undefined\<close> is the loose comparison: it holds of \<^verbatim>\<open>undefined\<close> and of
  \<^verbatim>\<open>null\<close>. An exception of \<^verbatim>\<open>buildCondition\<close> leaves the method.
\<close>

definition where_sql :: "builder \<Rightarrow> jsval list \<Rightarrow> error + builder" where
  "where_sql b args =
     (if length args = 0 \<or> (length args = 1 \<and> nullish (args ! 0)) then Inr b
      else
        (case buildCondition args of
           Inl e \<Rightarrow> Inl e
         | Inr c \<Rightarrow> Inr ((append_sql (append_sql b (FText ''WHERE'') []) c [])\<lparr>hasWhere := True\<rparr>)))"

definition and_sql :: "builder \<Rightarrow> jsval list \<Rightarrow> error + builder" where
  "and_sql b args =
     (case buildCondition args of
        Inl e \<Rightarrow> Inl e
      | Inr c \<Rightarrow> Inr (append_sql (append_sql b (FText ''AND'') []) c []))"

definition andWhere :: "builder \<Rightarrow> jsval list \<Rightarrow> error + builder" where
  "andWhere b args =
     (case (if hasWhere b then and_sql b args else where_sql b args) of
        Inl e \<Rightarrow> Inl e
      | Inr b' \<Rightarrow> Inr (b'\<lparr>hasWhere := True\<rparr>))"

section \<open>set\<close>

text \<open>
  \<^verbatim>\<open>this.values[key] = values[key]\<close> on the mapping that \<^verbatim>\<open>set\<close> records.
\<close>

fun assign :: "string \<Rightarrow> jsval \<Rightarrow> (string \<times> jsval) list \<Rightarrow> (string \<times> jsval) list" where
  "assign k v [] = [(k, v)]"
| "assign k v ((k', v') # fs) = (if k' = k then (k, v) # fs else (k', v') # assign k v fs)"

text \<open>
  The test \<^verbatim>\<open>values.hasOwnProperty === undefined || values.hasOwnProperty(key)\<close> of the
  loops over a mapping. A mapping without an own property of that name inherits the method,
  which answers whether the key is an own property. An own property that reads
  \<^verbatim>\<open>undefined\<close> makes the test true; one that is a function is called, and what that
  call does (the truth value it returns, or what it throws) is the parameter
  \<^verbatim>\<open>call_own\<close>, since a function value of this model has no body; any other own property
  is not callable and the call throws a TypeError.
\<close>

fun own_test :: "(string \<Rightarrow> error + bool) \<Rightarrow> jsval \<Rightarrow> string \<Rightarrow> error + bool" where
  "own_test call_own (JObj fs) key =
     (case map_of fs ''hasOwnProperty'' of
        None \<Rightarrow> Inr (hasOwnProperty (JObj fs) key)
      | Some JUndefined \<Rightarrow> Inr True
      | Some JFunc \<Rightarrow> call_own key
      | Some x \<Rightarrow> Inl TypeError)"
| "own_test call_own vals key = Inr (hasOwnProperty vals key)"

text \<open>
  The loop \<^verbatim>\<open>for (let key in values)\<close> of \<^verbatim>\<open>set\<close> over the keys still to visit, on
  the three things it updates: \<^verbatim>\<open>setExpressions\<close>, \<^verbatim>\<open>paramValues\<close> and
  \<^verbatim>\<open>this.values\<close>. The comparison \<^verbatim>\<open>originalValues[key] == values[key]\<close> is the
  language's loose equality; between two objects it compares identities, which the values of
  this model do not have, so the relation is a parameter, \<^verbatim>\<open>loose_eq\<close>. When
  \<^verbatim>\<open>originalValues\<close> is truthy it is neither \<^verbatim>\<open>null\<close> nor \<^verbatim>\<open>undefined\<close>, and
  reading its property does not throw.
\<close>

fun set_loop ::
  "(jsval \<Rightarrow> jsval \<Rightarrow> bool) \<Rightarrow> (string \<Rightarrow> error + bool) \<Rightarrow> jsval \<Rightarrow> jsval \<Rightarrow> string list \<Rightarrow>
   string list \<times> jsval list \<times> (string \<times> jsval) list \<Rightarrow>
   error + string list \<times> jsval list \<times> (string \<times> jsval) list" where
  "set_loop loose_eq call_own vals originalValues [] state = Inr state"
| "set_loop loose_eq call_own vals originalValues (key # keys)
       (setExpressions, paramValues, this_values) =
     (if reserved key then
        set_loop loose_eq call_own vals originalValues keys
          (setExpressions, paramValues, this_values)
      else
        (case own_test call_own vals key of
           Inl e \<Rightarrow> Inl e
         | Inr own \<Rightarrow>
             if own \<and> get vals key \<noteq> JFunc then
               (if truthy originalValues \<and> truthy (get originalValues key)
                   \<and> loose_eq (get originalValues key) (get vals key)
                then set_loop loose_eq call_own vals originalValues keys
                       (setExpressions, paramValues, assign key (get vals key) this_values)
                else set_loop loose_eq call_own vals originalValues keys
                       (setExpressions @ [backtick key @ '' = ?''],
                        paramValues @ [get vals key],
                        assign key (get vals key) this_values))
             else
               set_loop loose_eq call_own vals originalValues keys
                 (setExpressions, paramValues, this_values)))"

text \<open>
  \<^verbatim>\<open>set(values, originalValues)\<close>, called with the argument list \<^verbatim>\<open>args\<close>. An exception
  of the loop leaves the method.
\<close>

definition set_sql ::
  "(jsval \<Rightarrow> jsval \<Rightarrow> bool) \<Rightarrow> (string \<Rightarrow> error + bool) \<Rightarrow> builder \<Rightarrow> jsval list \<Rightarrow>
   error + builder" where
  "set_sql loose_eq call_own b args =
     (case arg args 0 of
        JStr s \<Rightarrow> Inr (append_sql (append_sql b (FText ''SET'') []) (FText s) (tl args))
      | vals \<Rightarrow>
          (case set_loop loose_eq call_own vals (arg args 1) (map fst (own_entries vals))
                  ([], [], []) of
             Inl e \<Rightarrow> Inl e
           | Inr (setExpressions, paramValues, this_values) \<Rightarrow>
               Inr (append_sql ((append_sql b (FText ''SET'') [])\<lparr>values_field := Some this_values\<rparr>)
                      (FText (join '','' setExpressions)) [JArr paramValues])))"

section \<open>Properties of toString\<close>

lemma pieces_not_Nil: "pieces cs \<noteq> []"
  by (induction cs) (auto split: list.splits)

lemma fill_placeholders_Cons_char:
  "fill_placeholders ((c # p) # ss) lits = c # fill_placeholders (p # ss) lits"
  by (cases ss; cases lits) simp_all

lemma fill_placeholders_empty_piece:
  "ss \<noteq> [] \<Longrightarrow> fill_placeholders ([] # ss) (l # lits) = l @ fill_placeholders ss lits"
  by (cases ss) simp_all

lemma fill_placeholders_no_literal:
  "ss \<noteq> [] \<Longrightarrow> fill_placeholders ([] # ss) [] = CHR ''?'' # fill_placeholders ss []"
  by (cases ss) simp_all

lemma replace_placeholders_exhausted:
  "length ps \<le> i \<Longrightarrow> replace_placeholders cs ps i = Inr (fill_placeholders (pieces cs) [])"
proof (induction cs)
  case Nil
  then show ?case by simp
next
  case (Cons c cs)
  obtain p ss where ps: "pieces cs = p # ss"
    using pieces_not_Nil [of cs] by (cases "pieces cs") auto
  show ?case
  proof (cases "c = CHR ''?''")
    case True
    with Cons show ?thesis
      by (simp add: fill_placeholders_no_literal pieces_not_Nil)
  next
    case False
    with Cons ps show ?thesis
      by (simp add: fill_placeholders_Cons_char)
  qed
qed

lemma replace_placeholders_fill:
  "map render_param (take (placeholders cs) (drop i ps)) = map Inr lits \<Longrightarrow>
   replace_placeholders cs ps i = Inr (fill_placeholders (pieces cs) lits)"
proof (induction cs arbitrary: i lits)
  case Nil
  then show ?case by simp
next
  case (Cons c cs)
  obtain p ss where pcs: "pieces cs = p # ss"
    using pieces_not_Nil [of cs] by (cases "pieces cs") auto
  show ?case
  proof (cases "c = CHR ''?''")
    case False
    with Cons.prems have "map render_param (take (placeholders cs) (drop i ps)) = map Inr lits"
      by (simp add: placeholders_def)
    from Cons.IH [OF this] False pcs show ?thesis
      by (simp add: fill_placeholders_Cons_char)
  next
    case q: True
    show ?thesis
    proof (cases "i < length ps")
      case False
      then have "drop i ps = []" by simp
      with Cons.prems have "lits = []" by simp
      with False q show ?thesis
        using replace_placeholders_exhausted [of ps i "c # cs"] by simp
    next
      case True
      then have d: "drop i ps = ps ! i # drop (Suc i) ps"
        by (simp add: Cons_nth_drop_Suc)
      from Cons.prems q d obtain l lits' where
        l: "lits = l # lits'" "render_param (ps ! i) = Inr l"
        "map render_param (take (placeholders cs) (drop (Suc i) ps)) = map Inr lits'"
        by (cases lits) (auto simp: placeholders_def)
      from Cons.IH [OF l(3)] True q l(1,2) show ?thesis
        by (simp add: fill_placeholders_empty_piece pieces_not_Nil)
    qed
  qed
qed

lemma replace_placeholders_unsupported:
  "j < placeholders cs \<Longrightarrow> i + j < length ps \<Longrightarrow> \<not> supported (ps ! (i + j)) \<Longrightarrow>
   \<forall>k<j. supported (ps ! (i + k)) \<Longrightarrow>
   replace_placeholders cs ps i = Inl (Error (invalid_parameter_message (js_typeof (ps ! (i + j)))))"
proof (induction cs arbitrary: i j)
  case Nil
  then show ?case by (simp add: placeholders_def)
next
  case (Cons c cs)
  show ?case
  proof (cases "c = CHR ''?''")
    case False
    with Cons.prems have "j < placeholders cs" by (simp add: placeholders_def)
    from Cons.IH [OF this Cons.prems(2,3,4)] False show ?thesis by simp
  next
    case q: True
    show ?thesis
    proof (cases j)
      case 0
      with Cons.prems q show ?thesis
        by (cases "ps ! i") simp_all
    next
      case (Suc j')
      with Cons.prems q have a: "j' < placeholders cs" "Suc i + j' < length ps"
        "\<not> supported (ps ! (Suc i + j'))" "\<forall>k<j'. supported (ps ! (Suc i + k))"
        by (auto simp: placeholders_def)
      from Cons.prems(4) Suc have "supported (ps ! i)" by force
      then obtain r where r: "render_param (ps ! i) = Inr r"
        by (cases "ps ! i") simp_all
      from Cons.IH [OF a] q r Suc Cons.prems(2) show ?thesis by simp
    qed
  qed
qed

lemma contains_middle: "contains (a @ w @ b) w"
proof -
  have "length a \<in> set (occurrences w (a @ w @ b))"
    by (simp add: occurrences_def)
  then show ?thesis
    unfolding contains_def by auto
qed

lemma digit_char_is_digit: "n < 10 \<Longrightarrow> is_digit (digit_char n)"
proof -
  assume "n < 10"
  then have "n \<in> {0, 1, 2, 3, 4, 5, 6, 7, 8, 9}" by auto
  then show ?thesis
    by (auto simp: digit_char_def is_digit_def)
qed

lemma show_nat_digits: "list_all is_digit (show_nat n)"
proof (induction n rule: show_nat.induct)
  case (1 n)
  show ?case
  proof (cases "n < 10")
    case True
    then show ?thesis
      by (subst show_nat.simps) (simp add: digit_char_is_digit)
  next
    case False
    with 1 show ?thesis
      by (subst show_nat.simps) (simp add: digit_char_is_digit)
  qed
qed

lemma join_pieces: "join ''?'' (pieces cs) = cs"
proof (induction cs)
  case Nil
  then show ?case by simp
next
  case (Cons c cs)
  obtain p ss where pcs: "pieces cs = p # ss"
    using pieces_not_Nil [of cs] by (cases "pieces cs") auto
  with Cons show ?case
    by (cases ss) auto
qed

lemma pieces_free: "list_all (\<lambda>p. CHR ''?'' \<notin> set p) (pieces cs)"
  by (induction cs) (auto split: list.splits)

lemma length_pieces: "length (pieces cs) = Suc (placeholders cs)"
  by (induction cs) (auto simp: placeholders_def split: list.splits)

lemma show_nat_5: "show_nat 5 = ''5''"
  by (subst show_nat.simps) (simp add: digit_char_def)

text \<open>
  C8, as stated, fails on the numbers: a number is rendered by its own
  \<^verbatim>\<open>toString()\<close>, which is not always a run of decimal digits. With the parameter
  \<^verbatim>\<open>1e21\<close>, whose \<^verbatim>\<open>toString()\<close> is \<^verbatim>\<open>1e+21\<close>, the placeholder of
  \<^verbatim>\<open>SELECT * FROM t WHERE id=?\<close> is replaced by \<^verbatim>\<open>1e+21\<close>.
\<close>

theorem toString_number_not_digits:
  "toString \<lparr>sql = ''SELECT * FROM t WHERE id=?'', params = [JNumOther ''1e+21''],
             hasWhere = False, values_field = None\<rparr> = Inr ''SELECT * FROM t WHERE id=1e+21''
   \<and> \<not> list_all is_digit ''1e+21''"
  by (simp add: toString_def is_digit_def)

text \<open>
  C8, amended. \<^verbatim>\<open>toString\<close> replaces the placeholders of the text, from the left, by the
  literals of the parameters: the text is the pieces between its placeholders joined by
  \<^verbatim>\<open>?\<close>, and when the parameters that meet a placeholder render to the literals
  \<^verbatim>\<open>lits\<close>, the result is the pieces with those literals between them and a \<^verbatim>\<open>?\<close>
  left wherever the parameters have run out. \<^verbatim>\<open>null\<close> renders as NULL. A number renders
  as the text of its own \<^verbatim>\<open>toString()\<close>, without quotes: for an integer from
  \<^verbatim>\<open>-2^53\<close> to \<^verbatim>\<open>2^53 - 1\<close> that is its decimal expansion, and for any other number
  whatever text \<^verbatim>\<open>toString()\<close> gives. An arbitrary-precision integer renders as its
  decimal expansion, without quotes. A decimal expansion is decimal digits, after a minus
  sign when the integer is negative. A string renders between single quotes with every
  single quote doubled, a byte sequence as X'...' over two hexadecimal digits per byte. The
  text \<^verbatim>\<open>SELECT * FROM t WHERE id=?\<close> with the parameter 5 renders as
  \<^verbatim>\<open>SELECT * FROM t WHERE id=5\<close>, and the string O'Brien as 'O''Brien'.
\<close>

theorem toString_fills_placeholders:
  "(map render_param (take (placeholders (sql b)) (params b)) = map Inr lits \<longrightarrow>
      toString b = Inr (fill_placeholders (pieces (sql b)) lits))
   \<and> join ''?'' (pieces (sql b)) = sql b
   \<and> list_all (\<lambda>p. CHR ''?'' \<notin> set p) (pieces (sql b))
   \<and> length (pieces (sql b)) = Suc (placeholders (sql b))
   \<and> render_param JNull = Inr ''NULL''
   \<and> render_param (JNum w) = Inr (show_int (sint w))
   \<and> render_param (JNumOther t) = Inr t
   \<and> render_param (JBigInt i) = Inr (show_int i)
   \<and> show_int (int m) = show_nat m
   \<and> show_int (- int (Suc m)) = CHR ''-'' # show_nat (Suc m)
   \<and> list_all is_digit (show_nat m)
   \<and> render_param (JStr s) =
       Inr ([CHR 0x27] @ concat (map (\<lambda>c. if c = CHR 0x27 then [CHR 0x27, CHR 0x27] else [c]) s)
            @ [CHR 0x27])
   \<and> render_param (JBuffer bs) = Inr (''X'' @ [CHR 0x27] @ concat (map hex_byte bs) @ [CHR 0x27])
   \<and> toString \<lparr>sql = ''SELECT * FROM t WHERE id=?'', params = [JNum 5],
                 hasWhere = False, values_field = None\<rparr> = Inr ''SELECT * FROM t WHERE id=5''
   \<and> render_param (JStr ''O'Brien'') = Inr ([CHR 0x27] @ ''O'' @ [CHR 0x27, CHR 0x27] @ ''Brien'' @ [CHR 0x27])"
proof -
  have general: "map render_param (take (placeholders (sql b)) (params b)) = map Inr lits \<longrightarrow>
      toString b = Inr (fill_placeholders (pieces (sql b)) lits)"
    unfolding toString_def using replace_placeholders_fill [of "sql b" 0 "params b" lits] by simp
  have example: "toString \<lparr>sql = ''SELECT * FROM t WHERE id=?'', params = [JNum 5],
                 hasWhere = False, values_field = None\<rparr> = Inr ''SELECT * FROM t WHERE id=5''"
    by (simp add: toString_def show_int_def show_nat_5)
  have quote: "render_param (JStr ''O'Brien'') =
      Inr ([CHR 0x27] @ ''O'' @ [CHR 0x27, CHR 0x27] @ ''Brien'' @ [CHR 0x27])"
    by (simp add: quoteString_def)
  have suc: "nat (int m + 1) = Suc m"
    by linarith
  have ints: "show_int (int m) = show_nat m"
    "show_int (- int (Suc m)) = CHR ''-'' # show_nat (Suc m)"
    by (simp_all add: show_int_def suc)
  show ?thesis
    using general example quote ints
    by (simp add: join_pieces pieces_free length_pieces show_nat_digits
        quoteString_def hex_string_def)
qed

theorem toString_fills_placeholders_witness:
  "map render_param (take (placeholders ''a=? b=?'') [JStr ''x'']) = map Inr [[CHR 0x27, CHR ''x'', CHR 0x27]]
   \<and> toString \<lparr>sql = ''a=? b=?'', params = [JStr ''x''], hasWhere = False, values_field = None\<rparr>
       = Inr (''a='' @ [CHR 0x27, CHR ''x'', CHR 0x27] @ '' b=?'')"
  using toString_fills_placeholders
    [of "\<lparr>sql = ''a=? b=?'', params = [JStr ''x''], hasWhere = False, values_field = None\<rparr>"
        "[[CHR 0x27, CHR ''x'', CHR 0x27]]"]
  by (simp add: placeholders_def quoteString_def)

text \<open>
  C9. When a placeholder of the text meets a parameter of an unsupported type (one that is
  not null or undefined, a string, a number, an arbitrary-precision integer or a byte
  sequence), \<^verbatim>\<open>toString\<close> throws: the call ends at the first such placeholder with an
  error whose message contains the \<^verbatim>\<open>typeof\<close> of the parameter it met there, and no
  text is returned.
\<close>

theorem toString_rejects_unsupported:
  assumes "i < placeholders (sql b)" and "i < length (params b)"
    and "\<not> supported (params b ! i)"
  shows "\<exists>j\<le>i. \<not> supported (params b ! j)
           \<and> toString b = Inl (Error (invalid_parameter_message (js_typeof (params b ! j))))
           \<and> contains (invalid_parameter_message (js_typeof (params b ! j)))
                 (js_typeof (params b ! j))"
proof -
  define j where "j = (LEAST k. \<not> supported (params b ! k))"
  have bad: "\<not> supported (params b ! j)"
    unfolding j_def using assms(3) by (rule LeastI)
  have le: "j \<le> i"
    unfolding j_def using assms(3) by (rule Least_le)
  have before: "\<forall>k<j. supported (params b ! k)"
    unfolding j_def using not_less_Least by blast
  have "replace_placeholders (sql b) (params b) 0
      = Inl (Error (invalid_parameter_message (js_typeof (params b ! (0 + j)))))"
    using le assms(1,2) bad before
    by (intro replace_placeholders_unsupported) auto
  then have thrown: "toString b = Inl (Error (invalid_parameter_message (js_typeof (params b ! j))))"
    by (simp add: toString_def)
  have "contains (invalid_parameter_message (js_typeof (params b ! j))) (js_typeof (params b ! j))"
    unfolding invalid_parameter_message_def
    using contains_middle [of "''Invalid parameter type: '' @ [CHR 0x27]" "js_typeof (params b ! j)"
        "[CHR 0x27] @ '' must be number, string, bigint, buffer, or null''"]
    by simp
  with bad le thrown show ?thesis by blast
qed

theorem toString_rejects_unsupported_witness:
  "1 < placeholders ''a=? b=?'' \<and> (1::nat) < length [JNum 1, JBool True]
   \<and> \<not> supported ([JNum 1, JBool True] ! 1)
   \<and> toString \<lparr>sql = ''a=? b=?'', params = [JNum 1, JBool True], hasWhere = False,
                  values_field = None\<rparr>
       = Inl (Error (''Invalid parameter type: '' @ [CHR 0x27] @ ''boolean'' @ [CHR 0x27] @
                     '' must be number, string, bigint, buffer, or null''))"
proof -
  have h: "1 < placeholders (sql \<lparr>sql = ''a=? b=?'', params = [JNum 1, JBool True],
      hasWhere = False, values_field = None\<rparr>)"
    "1 < length (params \<lparr>sql = ''a=? b=?'', params = [JNum 1, JBool True],
      hasWhere = False, values_field = None\<rparr>)"
    "\<not> supported (params \<lparr>sql = ''a=? b=?'', params = [JNum 1, JBool True],
      hasWhere = False, values_field = None\<rparr> ! 1)"
    by (simp_all add: placeholders_def)
  from toString_rejects_unsupported [OF h] obtain j where
    j: "j \<le> 1" "\<not> supported ([JNum 1, JBool True] ! j)"
    "toString \<lparr>sql = ''a=? b=?'', params = [JNum 1, JBool True], hasWhere = False,
        values_field = None\<rparr>
      = Inl (Error (invalid_parameter_message (js_typeof ([JNum 1, JBool True] ! j))))"
    by auto
  from j(1,2) have "j = 1"
    by (cases j) auto
  with j(3) show ?thesis
    by (simp add: placeholders_def invalid_parameter_message_def)
qed

section \<open>Properties of append\<close>

text \<open>
  On a text of more than one character \<^verbatim>\<open>append\<close> joins with one space, and an instance
  is appended as its text with its parameters.
\<close>

lemma append_text_joined:
  "1 < length (sql b) \<Longrightarrow>
   sql (append_sql b (FText s) rest) = sql b @ '' '' @ s
   \<and> sql (append_sql b (FSql s ps) rest) = sql b @ '' '' @ s
   \<and> params (append_sql b (FSql s ps) rest) = params b @ ps
   \<and> params (append_sql b (FText s) (JArr xs # others)) = params b @ xs
   \<and> params (append_sql b (FText s) []) = params b"
  by (simp add: Let_def split: jsval.splits)

lemma append_instance_is_text_and_params:
  "append_sql b (FSql s ps) rest = append_sql b (FText s) [JArr ps]"
  by (simp add: Let_def)

text \<open>
  C1. The claim fails on a text of one character: the test of \<^verbatim>\<open>append\<close> is
  \<^verbatim>\<open>this.sql.length>1\<close>, so on the text \<^verbatim>\<open>(\<close> the fragment \<^verbatim>\<open>x\<close> replaces the text
  instead of being joined to it with a space, and \<^verbatim>\<open>parens\<close>, which appends
  \<^verbatim>\<open>(\<close>, the fragment and \<^verbatim>\<open>)\<close>, leaves only \<^verbatim>\<open>)\<close> on an empty builder.
\<close>

theorem append_after_one_character:
  "append_sql \<lparr>sql = ''('', params = [], hasWhere = False, values_field = None\<rparr> (FText ''x'') []
     = \<lparr>sql = ''x'', params = [], hasWhere = False, values_field = None\<rparr>
   \<and> parens new_builder (FText ''x'') []
     = \<lparr>sql = '')'', params = [], hasWhere = False, values_field = None\<rparr>"
  by (simp add: parens_def new_builder_def)

section \<open>Properties of buildCondition\<close>

lemma new_SQL_text:
  "new_SQL (FText s) [JArr ps] = \<lparr>sql = s, params = ps, hasWhere = False, values_field = None\<rparr>"
  by (simp add: new_SQL_def new_builder_def)

lemma buildCondition_mapping:
  "buildCondition [JObj fs] =
     (case collect (map (\<lambda>(key, value). build_expression key value)
                        (filter (\<lambda>(key, value). \<not> reserved key) fs)) of
        Inl e \<Rightarrow> Inl e
      | Inr (ss, ps) \<Rightarrow>
          if ss = [] then Inr (FText ''TRUE'')
          else Inr (FSql (''('' @ join '' AND '' ss @ '')'') ps))"
  by (simp add: buildCondition_def entries_def nullish_def new_SQL_text instance_of_def
      split: sum.splits prod.splits)

lemma build_expression_number: "build_expression key (JNum n) = Inr ([key @ '' = ?''], [JNum n])"
  by (subst build_expression.simps) simp

text \<open>
  C2. For a column name \<^verbatim>\<open>k\<close> (a key that is not reserved) and a value object that
  carries \<^verbatim>\<open>$eq\<close> with the value \<^verbatim>\<open>x\<close> and none of \<^verbatim>\<open>$ne\<close>, \<^verbatim>\<open>$lt\<close>,
  \<^verbatim>\<open>$gt\<close>, \<^verbatim>\<open>$lte\<close>, \<^verbatim>\<open>$gte\<close>, \<^verbatim>\<open>$le\<close>, \<^verbatim>\<open>$ge\<close> (an object carries a key
  when reading it does not give \<^verbatim>\<open>undefined\<close>, which is the test of the code), the
  expression compiled for the key is \<^verbatim>\<open>`k` = ?\<close>, the condition is that text in
  parentheses, and the one parameter bound is what the field \<^verbatim>\<open>$ge\<close> reads,
  \<^verbatim>\<open>undefined\<close>, and not \<^verbatim>\<open>x\<close>.
\<close>

theorem eq_binds_ge_field:
  assumes "\<not> reserved k"
    and "get v ''$ne'' = JUndefined" and "get v ''$lt'' = JUndefined"
    and "get v ''$gt'' = JUndefined" and "get v ''$lte'' = JUndefined"
    and "get v ''$gte'' = JUndefined" and "get v ''$le'' = JUndefined"
    and "get v ''$ge'' = JUndefined"
    and "get v ''$eq'' = x" and "x \<noteq> JUndefined"
  shows "build_expression k v = Inr ([''`'' @ k @ ''` = ?''], [get v ''$ge''])
    \<and> buildCondition [JObj [(k, v)]] = Inr (FSql (''(`'' @ k @ ''` = ?)'') [JUndefined])
    \<and> [JUndefined] \<noteq> [x]"
proof -
  from assms(9,10) have v: "v \<noteq> JNull" "v \<noteq> JUndefined"
    by auto
  have e: "build_expression k v = Inr ([''`'' @ k @ ''` = ?''], [get v ''$ge''])"
    using assms v by (subst build_expression.simps) (simp add: backtick_def)
  with assms(1,8,10) show ?thesis
    by (simp add: buildCondition_mapping)
qed

theorem eq_binds_ge_field_witness:
  "\<not> reserved ''k''
   \<and> get (JObj [(''$eq'', JNum 5)]) ''$ne'' = JUndefined \<and> get (JObj [(''$eq'', JNum 5)]) ''$lt'' = JUndefined
   \<and> get (JObj [(''$eq'', JNum 5)]) ''$gt'' = JUndefined \<and> get (JObj [(''$eq'', JNum 5)]) ''$lte'' = JUndefined
   \<and> get (JObj [(''$eq'', JNum 5)]) ''$gte'' = JUndefined \<and> get (JObj [(''$eq'', JNum 5)]) ''$le'' = JUndefined
   \<and> get (JObj [(''$eq'', JNum 5)]) ''$ge'' = JUndefined
   \<and> get (JObj [(''$eq'', JNum 5)]) ''$eq'' = JNum 5 \<and> JNum 5 \<noteq> JUndefined
   \<and> buildCondition [JObj [(''k'', JObj [(''$eq'', JNum 5)])]] = Inr (FSql ''(`k` = ?)'' [JUndefined])"
  using eq_binds_ge_field [of "''k''" "JObj [(''$eq'', JNum 5)]" "JNum 5"]
  by simp

text \<open>
  C3. The claim fails on the code: the branch for \<^verbatim>\<open>$nin\<close> reads the length and the
  elements from \<^verbatim>\<open>v.$in\<close>, which is \<^verbatim>\<open>undefined\<close> whenever that branch is reached, so
  an object that carries \<^verbatim>\<open>$nin\<close> over an array makes the compilation throw a TypeError;
  so does \<^verbatim>\<open>buildCondition({k: {$nin: [1, 2]}})\<close>.
\<close>

theorem nin_throws:
  "build_expression k (JObj [(''$nin'', JArr xs)]) = Inl TypeError
   \<and> buildCondition [JObj [(''k'', JObj [(''$nin'', JArr [JNum 1, JNum 2])])]] = Inl TypeError"
  by (simp add: buildCondition_mapping build_expression.simps)

text \<open>
  C4. The claim fails on the code: the last branch of \<^verbatim>\<open>build_expression\<close>, the one a
  plain scalar reaches, pushes \<^verbatim>\<open>key + " = ?"\<close> with no backticks, so
  \<^verbatim>\<open>buildCondition({k: 5})\<close> is the text \<^verbatim>\<open>(k = ?)\<close> with the parameter 5.
\<close>

theorem default_equality_unquoted:
  "build_expression ''k'' (JNum 5) = Inr ([''k = ?''], [JNum 5])
   \<and> buildCondition [JObj [(''k'', JNum 5)]] = Inr (FSql ''(k = ?)'' [JNum 5])"
  by (simp add: buildCondition_mapping build_expression_number)

text \<open>
  C7. \<^verbatim>\<open>buildCondition\<close> of a mapping all of whose keys start with \<^verbatim>\<open>$\<close> or
  \<^verbatim>\<open>.\<close>, and of the empty mapping, is the text TRUE; it comes as a plain string, which
  carries no parameters, and appending it adds none.
\<close>

theorem buildCondition_all_reserved:
  "(list_all reserved (map fst fs) \<longrightarrow> buildCondition [JObj fs] = Inr (FText ''TRUE''))
   \<and> buildCondition [JObj []] = Inr (FText ''TRUE'')
   \<and> params (append_sql b (FText ''TRUE'') []) = params b"
proof -
  have "filter (\<lambda>(key, value). \<not> reserved key) fs = []" if "list_all reserved (map fst fs)"
    using that by (induction fs) auto
  then show ?thesis
    by (simp add: buildCondition_mapping Let_def)
qed

theorem buildCondition_all_reserved_witness:
  "list_all reserved (map fst [(''$top'', JNum 1), (''.hidden'', JStr ''x'')])
   \<and> buildCondition [JObj [(''$top'', JNum 1), (''.hidden'', JStr ''x'')]] = Inr (FText ''TRUE'')"
  using buildCondition_all_reserved [of "[(''$top'', JNum 1), (''.hidden'', JStr ''x'')]"]
  by simp

section \<open>Properties of where and andWhere\<close>

text \<open>
  C6. On an empty builder \<^verbatim>\<open>andWhere({a:1})\<close> does what \<^verbatim>\<open>where\<close> does and leaves the
  text \<^verbatim>\<open>WHERE (a = ?)\<close> with the flag set; \<^verbatim>\<open>andWhere({b:2})\<close> on the result does what
  \<^verbatim>\<open>and\<close> does and sets the flag again. The final text has the word WHERE once, at its
  start, and the word AND once, after it, and the parameters are 1 and 2. Whenever
  \<^verbatim>\<open>andWhere\<close> returns, the flag is set.
\<close>

theorem andWhere_twice:
  "andWhere new_builder [JObj [(''a'', JNum 1)]]
     = Inr \<lparr>sql = ''WHERE (a = ?)'', params = [JNum 1], hasWhere = True, values_field = None\<rparr>
   \<and> where_sql new_builder [JObj [(''a'', JNum 1)]]
     = Inr \<lparr>sql = ''WHERE (a = ?)'', params = [JNum 1], hasWhere = True, values_field = None\<rparr>
   \<and> andWhere \<lparr>sql = ''WHERE (a = ?)'', params = [JNum 1], hasWhere = True, values_field = None\<rparr>
        [JObj [(''b'', JNum 2)]]
     = Inr \<lparr>sql = ''WHERE (a = ?) AND (b = ?)'', params = [JNum 1, JNum 2], hasWhere = True,
            values_field = None\<rparr>
   \<and> and_sql \<lparr>sql = ''WHERE (a = ?)'', params = [JNum 1], hasWhere = True, values_field = None\<rparr>
        [JObj [(''b'', JNum 2)]]
     = Inr \<lparr>sql = ''WHERE (a = ?) AND (b = ?)'', params = [JNum 1, JNum 2], hasWhere = False,
            values_field = None\<rparr>
   \<and> occurrences ''WHERE'' ''WHERE (a = ?) AND (b = ?)'' = [0]
   \<and> occurrences ''AND'' ''WHERE (a = ?) AND (b = ?)'' = [14]
   \<and> (andWhere b args = Inr b' \<longrightarrow> hasWhere b')"
proof -
  have w: "where_sql new_builder [JObj [(''a'', JNum 1)]]
     = Inr \<lparr>sql = ''WHERE (a = ?)'', params = [JNum 1], hasWhere = True, values_field = None\<rparr>"
    by (simp add: where_sql_def nullish_def buildCondition_mapping build_expression_number
        new_builder_def)
  have a: "and_sql \<lparr>sql = ''WHERE (a = ?)'', params = [JNum 1], hasWhere = True, values_field = None\<rparr>
        [JObj [(''b'', JNum 2)]]
     = Inr \<lparr>sql = ''WHERE (a = ?) AND (b = ?)'', params = [JNum 1, JNum 2], hasWhere = False,
            values_field = None\<rparr>"
    by (simp add: and_sql_def buildCondition_mapping build_expression_number)
  have o1: "occurrences ''WHERE'' ''WHERE (a = ?) AND (b = ?)'' = [0]"
    by (simp add: occurrences_def upt_rec)
  have o2: "occurrences ''AND'' ''WHERE (a = ?) AND (b = ?)'' = [14]"
    by (simp add: occurrences_def upt_rec)
  have flag: "andWhere b args = Inr b' \<longrightarrow> hasWhere b'"
    by (auto simp: andWhere_def split: sum.splits if_splits)
  show ?thesis
    using w a o1 o2 flag by (simp add: andWhere_def new_builder_def)
qed

theorem andWhere_twice_witness:
  "andWhere new_builder [JObj [(''a'', JNum 1)]]
     = Inr \<lparr>sql = ''WHERE (a = ?)'', params = [JNum 1], hasWhere = True, values_field = None\<rparr>
   \<and> hasWhere \<lparr>sql = ''WHERE (a = ?)'', params = [JNum 1], hasWhere = True, values_field = None\<rparr>"
  using andWhere_twice [of new_builder "[JObj [(''a'', JNum 1)]]"
      "\<lparr>sql = ''WHERE (a = ?)'', params = [JNum 1], hasWhere = True, values_field = None\<rparr>"]
  by simp

text \<open>
  C10. \<^verbatim>\<open>where\<close> called with the single argument \<^verbatim>\<open>null\<close> returns the builder as it
  is: the text, the parameters and the flag are those it had, and no WHERE is appended. It
  does the same with no argument and with the single argument \<^verbatim>\<open>undefined\<close>.
\<close>

theorem where_null_is_no_op:
  "where_sql b [JNull] = Inr b \<and> where_sql b [] = Inr b \<and> where_sql b [JUndefined] = Inr b"
  by (simp add: where_sql_def nullish_def)

section \<open>Properties of set\<close>

text \<open>
  The example of the specification: \<^verbatim>\<open>set({a:1, b:2}, {a:1, b:3})\<close> on an empty builder
  is \<^verbatim>\<open>SET `b` = ?\<close> with the parameter list [2]. (On two numbers the loose equality is
  equality of the numbers.)
\<close>

lemma set_example:
  "set_sql (=) call_own new_builder
     [JObj [(''a'', JNum 1), (''b'', JNum 2)], JObj [(''a'', JNum 1), (''b'', JNum 3)]]
   = Inr \<lparr>sql = ''SET `b` = ?'', params = [JNum 2], hasWhere = False,
          values_field = Some [(''a'', JNum 1), (''b'', JNum 2)]\<rparr>"
  by (simp add: set_sql_def hasOwnProperty_def backtick_def new_builder_def)

text \<open>
  C5. The claim fails on the code: the test of \<^verbatim>\<open>set\<close> is
  \<^verbatim>\<open>originalValues && originalValues[key] && originalValues[key] == values[key]\<close>, so a
  column whose original value is not truthy is never left out. With
  \<^verbatim>\<open>set({a: 0}, {a: 0})\<close> the original value of \<^verbatim>\<open>a\<close> equals the new one, and the
  result is \<^verbatim>\<open>SET `a` = ?\<close> with the parameter list [0].
\<close>

theorem set_keeps_unchanged_zero:
  "set_sql (=) call_own new_builder [JObj [(''a'', JNum 0)], JObj [(''a'', JNum 0)]]
   = Inr \<lparr>sql = ''SET `a` = ?'', params = [JNum 0], hasWhere = False,
          values_field = Some [(''a'', JNum 0)]\<rparr>"
  by (simp add: set_sql_def hasOwnProperty_def backtick_def new_builder_def)

text \<open>
  A mapping whose own property \<^verbatim>\<open>hasOwnProperty\<close> is not a function makes \<^verbatim>\<open>set\<close>
  throw at the first key that is not reserved.
\<close>

lemma set_own_property_not_callable:
  "set_sql loose_eq call_own b [JObj [(''hasOwnProperty'', JNum 1)]] = Inl TypeError"
  by (simp add: set_sql_def)

end
